theory Spec2Isabelle
  imports Main
begin

section \<open>The Volvo Cars integration: config-entry lifecycle\<close>

text \<open>
  A shallow embedding of \<^verbatim>\<open>custom_components/volvo_cars/__init__.py\<close>: the
  config-entry callbacks \<^verbatim>\<open>async_setup_entry\<close>, \<^verbatim>\<open>async_migrate_entry\<close>,
  \<^verbatim>\<open>async_unload_entry\<close>, \<^verbatim>\<open>async_remove_entry\<close> and the helpers
  \<^verbatim>\<open>_async_reset_request_count_if_missed\<close> and \<^verbatim>\<open>_remove_old_entities\<close>.

  The coroutines run on one cooperative event loop and await every call they make, so
  each is a sequential function here. A function that mutates the config entry or calls
  into another component takes the state and returns it updated, together with either the
  value returned or the exception raised. Logging is left out: it has no effect on the
  entry, on the registry or on any call made. \<^verbatim>\<open>_options_update_listener\<close>, which
  only forwards to the host's reload of the entry, is left out as well.
\<close>

subsection \<open>Python values and exceptions\<close>

text \<open>
  The values of the dictionaries \<^verbatim>\<open>entry.data\<close>, \<^verbatim>\<open>entry.options\<close> and
  \<^verbatim>\<open>store.data\<close>: the JSON scalars. \<open>truthy\<close> is Python's truth value, as
  tested by \<^verbatim>\<open>if not last_reset_time\<close>.
\<close>

datatype pyval = PNone | PBool bool | PInt int | PStr string

fun truthy :: "pyval \<Rightarrow> bool" where
  "truthy PNone = False"
| "truthy (PBool b) = b"
| "truthy (PInt i) = (i \<noteq> 0)"
| "truthy (PStr s) = (s \<noteq> [])"

text \<open>
  The exceptions of the host framework (\<^verbatim>\<open>homeassistant.exceptions\<close>) and the bare
  Python exceptions this file can raise itself: \<^verbatim>\<open>assert\<close> raises AssertionError, an
  attribute that was never set raises AttributeError, a missing dictionary key raises
  KeyError, \<^verbatim>\<open>datetime.fromisoformat\<close> raises ValueError on a malformed string and
  TypeError on a value that is no string, and comparing a naive with an aware datetime
  raises TypeError.
\<close>

datatype host_exception =
  ConfigEntryNotReady | ConfigEntryAuthFailed | ConfigEntryError | HomeAssistantError

datatype error =
  AssertionError | AttributeError | KeyError | TypeError | ValueError
| HostException host_exception

fun framework_defined :: "error \<Rightarrow> bool" where
  "framework_defined (HostException x) = True"
| "framework_defined AssertionError = False"
| "framework_defined AttributeError = False"
| "framework_defined KeyError = False"
| "framework_defined TypeError = False"
| "framework_defined ValueError = False"

subsection \<open>Dates and times\<close>

text \<open>
  A \<^verbatim>\<open>datetime.datetime\<close> by its fields. \<open>tzinfo\<close> is the UTC offset in
  microseconds of an aware datetime and \<open>None\<close> for a naive one. The day number follows
  \<^verbatim>\<open>_ymd2ord\<close> of Python's datetime module (proleptic Gregorian, 0001-01-01 is day
  1), and \<open>instant\<close> is the number of microseconds since the start of day 0 in UTC.
  The month of a datetime is always between 1 and 12; \<open>days_before_month\<close> is 0
  outside that range, where Python's helper is never called.
\<close>

record pdatetime =
  year :: int
  month :: int
  day :: int
  hour :: int
  minute :: int
  second :: int
  microsecond :: int
  tzinfo :: "int option"

definition is_leap :: "int \<Rightarrow> bool" where
  "is_leap y = (y mod 4 = 0 \<and> (y mod 100 \<noteq> 0 \<or> y mod 400 = 0))"

definition days_before_year :: "int \<Rightarrow> int" where
  "days_before_year y = (y - 1) * 365 + (y - 1) div 4 - (y - 1) div 100 + (y - 1) div 400"

definition DAYS_BEFORE_MONTH :: "int list" where
  "DAYS_BEFORE_MONTH = [0, 31, 59, 90, 120, 151, 181, 212, 243, 273, 304, 334]"

definition days_before_month :: "int \<Rightarrow> int \<Rightarrow> int" where
  "days_before_month y m =
     (if 1 \<le> m \<and> m \<le> 12
      then DAYS_BEFORE_MONTH ! nat (m - 1) + (if m > 2 \<and> is_leap y then 1 else 0)
      else 0)"

definition ymd2ord :: "int \<Rightarrow> int \<Rightarrow> int \<Rightarrow> int" where
  "ymd2ord y m d = days_before_year y + days_before_month y m + d"

definition day_us :: int where
  "day_us = 86400000000"

definition time_of_day :: "pdatetime \<Rightarrow> int" where
  "time_of_day t = ((hour t * 60 + minute t) * 60 + second t) * 1000000 + microsecond t"

definition instant :: "pdatetime \<Rightarrow> int" where
  "instant t =
     ymd2ord (year t) (month t) (day t) * day_us + time_of_day t
       - (case tzinfo t of None \<Rightarrow> 0 | Some off \<Rightarrow> off)"

text \<open>
  \<^verbatim>\<open>a < b\<close> on datetimes: two naive values compare by their fields, two aware values
  by their instants, and a naive value against an aware one raises TypeError.
\<close>

definition datetime_lt :: "pdatetime \<Rightarrow> pdatetime \<Rightarrow> error + bool" where
  "datetime_lt a b =
     (case (tzinfo a, tzinfo b) of
        (None, None) \<Rightarrow> Inr (instant a < instant b)
      | (Some x, Some y) \<Rightarrow> Inr (instant a < instant b)
      | (None, Some y) \<Rightarrow> Inl TypeError
      | (Some x, None) \<Rightarrow> Inl TypeError)"


subsection \<open>Objects of the integration and of the host\<close>

text \<open>
  The classes below are declared in modules of the integration that this file imports
  (\<^verbatim>\<open>store\<close>, \<^verbatim>\<open>coordinator\<close>, \<^verbatim>\<open>volvo.api\<close>, \<^verbatim>\<open>volvo.auth\<close>). An object is
  the constructor applied to the arguments this file passes to it (\<^verbatim>\<open>hass\<close> and the
  HTTP client session are the same in every call and are dropped; the entry is passed by
  its \<^verbatim>\<open>entry_id\<close>).
\<close>

datatype platform = BINARY_SENSOR | SENSOR

datatype store_manager = VolvoCarsStoreManager string

datatype api = VolvoCarsApi pyval pyval

datatype auth_api = VolvoCarsAuthApi api

datatype token_coordinator = TokenCoordinator string store_manager auth_api

datatype data_coordinator = VolvoCarsDataCoordinator string store_manager api

record volvo_cars_data =
  coordinator :: data_coordinator
  token_coordinator :: token_coordinator
  store :: store_manager

text \<open>
  The host's \<^verbatim>\<open>ConfigEntry\<close>. \<open>unique_id\<close> is \<^verbatim>\<open>str | None\<close>. The attribute
  \<^verbatim>\<open>runtime_data\<close> exists only once setup has assigned it (\<open>None\<close> here is the
  attribute not being set: reading it raises AttributeError).
\<close>

record config_entry =
  entry_id :: string
  unique_id :: "string option"
  version :: int
  minor_version :: int
  data :: "string \<rightharpoonup> pyval"
  options :: "string \<rightharpoonup> pyval"
  runtime_data :: "volvo_cars_data option"

text \<open>
  The calls this file makes on objects of other modules, in the order made. A method of
  the store manager or of a coordinator is not defined in this file, so what the world
  records of it is the call and its arguments.
\<close>

datatype call =
  StoreAsyncLoad store_manager
| StoreAsyncUpdate store_manager pyval pyval
| StoreAsyncRemove store_manager
| AsyncScheduleRefresh token_coordinator bool
| CancelRefresh token_coordinator
| AsyncResetRequestCount data_coordinator
| AsyncConfigEntryFirstRefresh data_coordinator
| AsyncForwardEntrySetups string "platform list"
| AsyncUnloadPlatforms string "platform list"
| AddUpdateListener string
| AsyncTrackUtcTimeChange data_coordinator int int int

text \<open>
  \<^verbatim>\<open>hass\<close>: the calls made so far and the entity registry, as the set of the entity
  ids registered.
\<close>

record hass =
  calls :: "call list"
  entity_registry :: "string set"

text \<open>
  Names imported from modules of the integration that are not part of this file, taken
  as parameters: the class attributes \<^verbatim>\<open>VolvoCarsFlowHandler.VERSION\<close> and
  \<^verbatim>\<open>MINOR_VERSION\<close> and \<^verbatim>\<open>get_setting\<close> (\<^verbatim>\<open>config_flow\<close>), the constants of
  \<^verbatim>\<open>const\<close>, and \<^verbatim>\<open>get_entity_id\<close> (\<^verbatim>\<open>entity\<close>).
\<close>

record integration =
  VERSION :: int
  MINOR_VERSION :: int
  OPT_FUEL_CONSUMPTION_UNIT :: string
  OPT_UNIT_LITER_PER_100KM :: pyval
  CONF_VIN :: string
  CONF_VCC_API_KEY :: string
  PLATFORMS :: "platform list"
  get_setting :: "config_entry \<Rightarrow> string \<Rightarrow> error + pyval"
  get_entity_id :: "data_coordinator \<Rightarrow> platform \<Rightarrow> string \<Rightarrow> string"

text \<open>The constants of \<^verbatim>\<open>homeassistant.const\<close> that this file uses.\<close>

definition CONF_ACCESS_TOKEN :: string where
  "CONF_ACCESS_TOKEN = ''access_token''"

definition CONF_PASSWORD :: string where
  "CONF_PASSWORD = ''password''"

text \<open>
  What a callback leaves behind: the value returned or the exception raised, and the
  state at that moment.
\<close>

record 'a run =
  outcome :: "error + 'a"
  hass_after :: hass
  entry_after :: config_entry

definition returns :: "'a \<Rightarrow> hass \<Rightarrow> config_entry \<Rightarrow> 'a run" where
  "returns x h e = \<lparr>outcome = Inr x, hass_after = h, entry_after = e\<rparr>"

definition raises :: "error \<Rightarrow> hass \<Rightarrow> config_entry \<Rightarrow> 'a run" where
  "raises err h e = \<lparr>outcome = Inl err, hass_after = h, entry_after = e\<rparr>"

definition record_call :: "call \<Rightarrow> hass \<Rightarrow> hass" where
  "record_call c h = h\<lparr>calls := calls h @ [c]\<rparr>"

subsection \<open>What the other modules answer\<close>

text \<open>
  What the world outside this file answers, taken as parameters: the clock
  (\<^verbatim>\<open>datetime.now(UTC)\<close>), Python's \<^verbatim>\<open>datetime.fromisoformat\<close>, the contents of
  \<^verbatim>\<open>store.data\<close> when line 62 reads it, and for each awaited method of another
  module whether it returns (\<open>None\<close>) or raises (\<open>Some\<close> the exception):
  \<^verbatim>\<open>store.async_load\<close>, \<^verbatim>\<open>store.async_update\<close> and \<^verbatim>\<open>store.async_remove\<close>
  of the store manager, the methods of the two coordinators, and the host's forwarding
  and unloading of the platforms.
\<close>

record environment =
  utcnow :: pdatetime
  fromisoformat :: "string \<Rightarrow> error + pdatetime"
  store_data :: "string \<rightharpoonup> pyval"
  async_load :: "error option"
  async_update :: "error option"
  async_remove :: "error option"
  async_schedule_refresh :: "error option"
  async_reset_request_count :: "error option"
  async_config_entry_first_refresh :: "error option"
  async_forward_entry_setups :: "error option"
  async_unload_platforms :: "error + bool"

text \<open>
  An awaited call: it is made, and then it returns or raises. The call is recorded in
  both cases.
\<close>

definition await :: "call \<Rightarrow> error option \<Rightarrow> hass \<Rightarrow> (error + unit) \<times> hass" where
  "await c answer h =
     (case answer of None \<Rightarrow> (Inr (), record_call c h) | Some err \<Rightarrow> (Inl err, record_call c h))"

subsection \<open>Migration\<close>

text \<open>
  \<^verbatim>\<open>_remove_old_entities\<close>: for each old entity in turn, look its id up in the entity
  registry and remove it when it is registered.
\<close>

definition old_entities :: "(platform \<times> string) list" where
  "old_entities =
     [(BINARY_SENSOR, ''availability''),
      (BINARY_SENSOR, ''front_left_door''),
      (BINARY_SENSOR, ''front_right_door''),
      (BINARY_SENSOR, ''rear_left_door''),
      (BINARY_SENSOR, ''rear_right_door''),
      (BINARY_SENSOR, ''front_left_tyre''),
      (BINARY_SENSOR, ''front_right_tyre''),
      (BINARY_SENSOR, ''rear_left_tyre''),
      (BINARY_SENSOR, ''rear_right_tyre''),
      (BINARY_SENSOR, ''front_left_window''),
      (BINARY_SENSOR, ''front_right_window''),
      (BINARY_SENSOR, ''rear_left_window''),
      (BINARY_SENSOR, ''rear_right_window''),
      (SENSOR, ''engine_hours_to_service'')]"

definition remove_old_entity ::
  "integration \<Rightarrow> data_coordinator \<Rightarrow> platform \<times> string \<Rightarrow> string set \<Rightarrow> string set" where
  "remove_old_entity im c old_entity er =
     (let old_id = get_entity_id im c (fst old_entity) (snd old_entity)
      in if old_id \<in> er then er - {old_id} else er)"

definition remove_old_entities :: "integration \<Rightarrow> hass \<Rightarrow> data_coordinator \<Rightarrow> hass" where
  "remove_old_entities im h c =
     h\<lparr>entity_registry := fold (remove_old_entity im c) old_entities (entity_registry h)\<rparr>"

text \<open>
  The step for \<^verbatim>\<open>minor_version < 2\<close> (lines 98 to 100): set the default unit in the
  new options, then read \<^verbatim>\<open>entry.runtime_data.coordinator\<close> and remove the old
  entities.
\<close>

definition migrate_minor_2 ::
  "integration \<Rightarrow> hass \<Rightarrow> config_entry \<Rightarrow> (string \<rightharpoonup> pyval)
     \<Rightarrow> (error + (string \<rightharpoonup> pyval)) \<times> hass" where
  "migrate_minor_2 im h e new_options =
     (if minor_version e < 2 then
        (let new_options = new_options(OPT_FUEL_CONSUMPTION_UNIT im \<mapsto> OPT_UNIT_LITER_PER_100KM im)
         in case runtime_data e of
              None \<Rightarrow> (Inl AttributeError, h)
            | Some rd \<Rightarrow> (Inr new_options, remove_old_entities im h (coordinator rd)))
      else (Inr new_options, h))"

text \<open>
  The step for \<^verbatim>\<open>minor_version < 3\<close> (lines 102 to 112): when both tokens are in the
  new data, assert the unique id, pop both and await \<^verbatim>\<open>store.async_update\<close> of a
  new store manager with them; when that call raises, the exception leaves the function
  and nothing after line 109 runs. Then pop the password when it is there.
\<close>

definition migrate_minor_3 ::
  "environment \<Rightarrow> hass \<Rightarrow> config_entry \<Rightarrow> (string \<rightharpoonup> pyval)
     \<Rightarrow> (error + (string \<rightharpoonup> pyval)) \<times> hass" where
  "migrate_minor_3 env h e new_data =
     (if minor_version e < 3 then
        (case (case (new_data CONF_ACCESS_TOKEN, new_data ''refresh_token'') of
                 (Some access_token, Some refresh_token) \<Rightarrow>
                   (case unique_id e of
                      None \<Rightarrow> (Inl AssertionError, h)
                    | Some uid \<Rightarrow>
                        (case await
                                (StoreAsyncUpdate (VolvoCarsStoreManager uid)
                                   access_token refresh_token)
                                (async_update env) h of
                           (Inl err, h') \<Rightarrow> (Inl err, h')
                         | (Inr u, h') \<Rightarrow>
                             (Inr (new_data(CONF_ACCESS_TOKEN := None, ''refresh_token'' := None)),
                              h')))
               | _ \<Rightarrow> (Inr new_data, h)) of
           (Inl err, h') \<Rightarrow> (Inl err, h')
         | (Inr new_data, h') \<Rightarrow>
             (Inr (if new_data CONF_PASSWORD \<noteq> None then new_data(CONF_PASSWORD := None)
                   else new_data), h'))
      else (Inr new_data, h))"

text \<open>
  \<^verbatim>\<open>hass.config_entries.async_update_entry(entry, data=, options=, version=,
  minor_version=)\<close> of the host: the four fields are replaced.
\<close>

definition async_update_entry ::
  "config_entry \<Rightarrow> (string \<rightharpoonup> pyval) \<Rightarrow> (string \<rightharpoonup> pyval) \<Rightarrow> int \<Rightarrow> int \<Rightarrow> config_entry" where
  "async_update_entry e d opts v mv = e\<lparr>data := d, options := opts, version := v, minor_version := mv\<rparr>"

definition async_migrate_entry ::
  "integration \<Rightarrow> environment \<Rightarrow> hass \<Rightarrow> config_entry \<Rightarrow> bool run" where
  "async_migrate_entry im env h e =
     (if version e > VERSION im then returns False h e
      else if version e = 1 then
        (let new_data = data e;
             new_options = options e
         in case migrate_minor_2 im h e new_options of
              (Inl err, h1) \<Rightarrow> raises err h1 e
            | (Inr new_options, h1) \<Rightarrow>
                (case migrate_minor_3 env h1 e new_data of
                   (Inl err, h2) \<Rightarrow> raises err h2 e
                 | (Inr new_data, h2) \<Rightarrow>
                     returns True h2
                       (async_update_entry e new_data new_options (VERSION im) (MINOR_VERSION im))))
      else returns True h e)"

subsection \<open>Removal\<close>

text \<open>
  \<^verbatim>\<open>async_remove_entry\<close>: \<^verbatim>\<open>if entry.unique_id:\<close> holds for a unique id that is
  neither None nor the empty string; then \<^verbatim>\<open>store.async_remove\<close> of a new store
  manager for that id is awaited, and what it raises leaves the function.
\<close>

definition async_remove_entry :: "environment \<Rightarrow> hass \<Rightarrow> config_entry \<Rightarrow> unit run" where
  "async_remove_entry env h e =
     (case unique_id e of
        None \<Rightarrow> returns () h e
      | Some uid \<Rightarrow>
          if uid \<noteq> [] then
            (case await (StoreAsyncRemove (VolvoCarsStoreManager uid)) (async_remove env) h of
               (Inl err, h1) \<Rightarrow> raises err h1 e
             | (Inr u, h1) \<Rightarrow> returns () h1 e)
          else returns () h e)"

subsection \<open>Setup and the missed daily reset\<close>

text \<open>
  \<^verbatim>\<open>datetime.combine(date(now.year, now.month, now.day), time(0, 0, 0, tzinfo=UTC))\<close>:
  the date fields of \<open>now\<close>, time 00:00:00 and offset 0.
\<close>

definition most_recent_midnight :: "pdatetime \<Rightarrow> pdatetime" where
  "most_recent_midnight t =
     \<lparr>year = year t, month = month t, day = day t,
      hour = 0, minute = 0, second = 0, microsecond = 0, tzinfo = Some 0\<rparr>"

definition async_reset_request_count_if_missed ::
  "environment \<Rightarrow> hass \<Rightarrow> pyval \<Rightarrow> data_coordinator \<Rightarrow> (error + unit) \<times> hass" where
  "async_reset_request_count_if_missed env h last_reset_time c =
     (if \<not> truthy last_reset_time then (Inr (), h)
      else
        case (case last_reset_time of
                PStr s \<Rightarrow> fromisoformat env s
              | _ \<Rightarrow> Inl TypeError) of
          Inl err \<Rightarrow> (Inl err, h)
        | Inr reset_time \<Rightarrow>
            (case datetime_lt reset_time (most_recent_midnight (utcnow env)) of
               Inl err \<Rightarrow> (Inl err, h)
             | Inr True \<Rightarrow> await (AsyncResetRequestCount c) (async_reset_request_count env) h
             | Inr False \<Rightarrow> (Inr (), h)))"

definition async_setup_entry ::
  "integration \<Rightarrow> environment \<Rightarrow> hass \<Rightarrow> config_entry \<Rightarrow> bool run" where
  "async_setup_entry im env h e =
     (case unique_id e of
        None \<Rightarrow> raises AssertionError h e
      | Some uid \<Rightarrow>
     (let store = VolvoCarsStoreManager uid
      in (case await (StoreAsyncLoad store) (async_load env) h of
        (Inl err, h1) \<Rightarrow> raises err h1 e
      | (Inr u1, h1) \<Rightarrow>
     (case get_setting im e (CONF_VIN im) of
        Inl err \<Rightarrow> raises err h1 e
      | Inr vin \<Rightarrow>
     (case get_setting im e (CONF_VCC_API_KEY im) of
        Inl err \<Rightarrow> raises err h1 e
      | Inr api_key \<Rightarrow>
     (let api = VolvoCarsApi vin api_key;
          auth_api = VolvoCarsAuthApi api;
          token_coordinator = TokenCoordinator (entry_id e) store auth_api
      in (case await (AsyncScheduleRefresh token_coordinator True)
                (async_schedule_refresh env) h1 of
        (Inl err, h2) \<Rightarrow> raises err h2 e
      | (Inr u2, h2) \<Rightarrow>
     (let coordinator = VolvoCarsDataCoordinator (entry_id e) store api
      in (case store_data env ''api_requests_reset_time'' of
        None \<Rightarrow> raises KeyError h2 e
      | Some last_reset_time \<Rightarrow>
     (case async_reset_request_count_if_missed env h2 last_reset_time coordinator of
        (Inl err, h3) \<Rightarrow> raises err h3 e
      | (Inr u3, h3) \<Rightarrow>
     (let e1 = e\<lparr>runtime_data :=
                 Some \<lparr>coordinator = coordinator, token_coordinator = token_coordinator,
                       store = store\<rparr>\<rparr>
      in (case await (AsyncConfigEntryFirstRefresh coordinator)
                (async_config_entry_first_refresh env) h3 of
        (Inl err, h4) \<Rightarrow> raises err h4 e1
      | (Inr u4, h4) \<Rightarrow>
     (case await (AsyncForwardEntrySetups (entry_id e) (PLATFORMS im))
                (async_forward_entry_setups env) h4 of
        (Inl err, h5) \<Rightarrow> raises err h5 e1
      | (Inr u5, h5) \<Rightarrow>
          returns True
            (record_call (AsyncTrackUtcTimeChange coordinator 0 0 0)
               (record_call (AddUpdateListener (entry_id e)) h5)) e1)))))))))))))"

text \<open>
  \<^verbatim>\<open>async_unload_entry\<close>: cancel the token refresh of the runtime data, then return
  what the host's \<^verbatim>\<open>async_unload_platforms\<close> returns.
\<close>

definition async_unload_entry ::
  "integration \<Rightarrow> environment \<Rightarrow> hass \<Rightarrow> config_entry \<Rightarrow> bool run" where
  "async_unload_entry im env h e =
     (case runtime_data e of
        None \<Rightarrow> raises AttributeError h e
      | Some rd \<Rightarrow>
          (let h1 = record_call (CancelRefresh (token_coordinator rd)) h;
               h2 = record_call (AsyncUnloadPlatforms (entry_id e) (PLATFORMS im)) h1
           in (case async_unload_platforms env of
                 Inl err \<Rightarrow> raises err h2 e
               | Inr unloaded \<Rightarrow> returns unloaded h2 e)))"

subsection \<open>Concrete inputs\<close>

text \<open>
  An instance of the parameters, and entries and stored values at which the callbacks
  are evaluated below. The flow handler is at version 1.3, the last version that
  \<^verbatim>\<open>async_migrate_entry\<close> has a step for.
\<close>

definition example_get_setting :: "config_entry \<Rightarrow> string \<Rightarrow> error + pyval" where
  "example_get_setting e k =
     (case options e k of
        Some v \<Rightarrow> Inr v
      | None \<Rightarrow> (case data e k of Some v \<Rightarrow> Inr v | None \<Rightarrow> Inl KeyError))"

definition example_get_entity_id :: "data_coordinator \<Rightarrow> platform \<Rightarrow> string \<Rightarrow> string" where
  "example_get_entity_id c p k =
     (case p of BINARY_SENSOR \<Rightarrow> ''binary_sensor.volvo_'' | SENSOR \<Rightarrow> ''sensor.volvo_'') @ k"

definition example_integration :: integration where
  "example_integration =
     \<lparr>VERSION = 1, MINOR_VERSION = 3,
      OPT_FUEL_CONSUMPTION_UNIT = ''fuel_consumption_unit'',
      OPT_UNIT_LITER_PER_100KM = PStr ''l_100km'',
      CONF_VIN = ''vin'', CONF_VCC_API_KEY = ''vcc_api_key'',
      PLATFORMS = [BINARY_SENSOR, SENSOR],
      get_setting = example_get_setting,
      get_entity_id = example_get_entity_id\<rparr>"

definition example_hass :: hass where
  "example_hass =
     \<lparr>calls = [],
      entity_registry = {''binary_sensor.volvo_availability'', ''sensor.volvo_odometer''}\<rparr>"

definition example_runtime_data :: volvo_cars_data where
  "example_runtime_data =
     \<lparr>coordinator =
        VolvoCarsDataCoordinator ''entry1'' (VolvoCarsStoreManager ''YV1'')
          (VolvoCarsApi (PStr ''YV1'') (PStr ''key'')),
      token_coordinator =
        TokenCoordinator ''entry1'' (VolvoCarsStoreManager ''YV1'')
          (VolvoCarsAuthApi (VolvoCarsApi (PStr ''YV1'') (PStr ''key''))),
      store = VolvoCarsStoreManager ''YV1''\<rparr>"

text \<open>
  An entry as version 1.2 wrote it: the tokens and the password are still in its data.
\<close>

definition example_entry :: config_entry where
  "example_entry =
     \<lparr>entry_id = ''entry1'', unique_id = Some ''YV1'', version = 1, minor_version = 2,
      data = [''vin'' \<mapsto> PStr ''YV1'', ''vcc_api_key'' \<mapsto> PStr ''key'',
              ''access_token'' \<mapsto> PStr ''at'', ''refresh_token'' \<mapsto> PStr ''rt'',
              ''password'' \<mapsto> PStr ''secret''],
      options = Map.empty,
      runtime_data = None\<rparr>"

text \<open>
  A parser that agrees with \<^verbatim>\<open>datetime.fromisoformat\<close> on the strings used below:
  two timestamps as \<^verbatim>\<open>datetime.isoformat\<close> writes them, one before and one at the
  midnight of 2024-05-02, and strings that are no ISO 8601 timestamps.
\<close>

definition example_fromisoformat :: "string \<Rightarrow> error + pdatetime" where
  "example_fromisoformat s =
     (if s = ''2024-05-01T23:59:59+00:00'' then
        Inr \<lparr>year = 2024, month = 5, day = 1, hour = 23, minute = 59, second = 59,
             microsecond = 0, tzinfo = Some 0\<rparr>
      else if s = ''2024-05-02T00:00:00+00:00'' then
        Inr \<lparr>year = 2024, month = 5, day = 2, hour = 0, minute = 0, second = 0,
             microsecond = 0, tzinfo = Some 0\<rparr>
      else Inl ValueError)"

definition example_environment :: environment where
  "example_environment =
     \<lparr>utcnow = \<lparr>year = 2024, month = 5, day = 2, hour = 9, minute = 56, second = 0,
                microsecond = 0, tzinfo = Some 0\<rparr>,
      fromisoformat = example_fromisoformat,
      store_data = [''access_token'' \<mapsto> PStr ''at'', ''refresh_token'' \<mapsto> PStr ''rt'',
                    ''api_requests_reset_time'' \<mapsto> PStr ''2024-05-01T23:59:59+00:00''],
      async_load = None,
      async_update = None,
      async_remove = None,
      async_schedule_refresh = None,
      async_reset_request_count = None,
      async_config_entry_first_refresh = None,
      async_forward_entry_setups = None,
      async_unload_platforms = Inr True\<rparr>"

subsection \<open>Reading the record of calls\<close>

text \<open>The removals of a persisted store among the calls made so far.\<close>

fun is_store_removal :: "call \<Rightarrow> bool" where
  "is_store_removal (StoreAsyncRemove s) = True"
| "is_store_removal c = False"

definition store_removals :: "hass \<Rightarrow> call list" where
  "store_removals h = filter is_store_removal (calls h)"

subsection \<open>Conditions on what setup is given\<close>

text \<open>
  Every component that setup calls raises, if it raises, an exception of the host
  framework.
\<close>

definition answer_framework_defined :: "error option \<Rightarrow> bool" where
  "answer_framework_defined a = (case a of None \<Rightarrow> True | Some err \<Rightarrow> framework_defined err)"

definition setting_framework_defined :: "error + pyval \<Rightarrow> bool" where
  "setting_framework_defined r = (case r of Inl err \<Rightarrow> framework_defined err | Inr v \<Rightarrow> True)"

definition components_raise_framework_exceptions ::
  "integration \<Rightarrow> environment \<Rightarrow> config_entry \<Rightarrow> bool" where
  "components_raise_framework_exceptions im env e =
     (answer_framework_defined (async_load env)
      \<and> setting_framework_defined (get_setting im e (CONF_VIN im))
      \<and> setting_framework_defined (get_setting im e (CONF_VCC_API_KEY im))
      \<and> answer_framework_defined (async_schedule_refresh env)
      \<and> answer_framework_defined (async_reset_request_count env)
      \<and> answer_framework_defined (async_config_entry_first_refresh env)
      \<and> answer_framework_defined (async_forward_entry_setups env))"

text \<open>
  The store holds a reset timestamp that line 62 can read and lines 152 to 161 can
  handle: the key is present, and its value is falsy (None or the empty string) or a
  string that parses to an aware datetime.
\<close>

definition reset_time_readable :: "environment \<Rightarrow> bool" where
  "reset_time_readable env =
     (case store_data env ''api_requests_reset_time'' of
        None \<Rightarrow> False
      | Some t \<Rightarrow>
          \<not> truthy t \<or>
          (case t of
             PStr s \<Rightarrow> (case fromisoformat env s of Inl err \<Rightarrow> False | Inr dt \<Rightarrow> tzinfo dt \<noteq> None)
           | _ \<Rightarrow> False))"

text \<open>
  Setup gets as far as the reset check of line 61: the entry has a unique id, the store
  loads, both settings are found and the token refresh is scheduled.
\<close>

definition setup_reaches_reset_check ::
  "integration \<Rightarrow> environment \<Rightarrow> config_entry \<Rightarrow> bool" where
  "setup_reaches_reset_check im env e =
     (unique_id e \<noteq> None \<and> async_load env = None
      \<and> \<not> isl (get_setting im e (CONF_VIN im))
      \<and> \<not> isl (get_setting im e (CONF_VCC_API_KEY im))
      \<and> async_schedule_refresh env = None)"

section \<open>Properties of the migration\<close>

lemma calls_remove_old_entities: "calls (remove_old_entities im h c) = calls h"
  by (simp add: remove_old_entities_def)

lemma migrate_minor_2_runs:
  "minor_version e < 2 \<Longrightarrow> runtime_data e = Some rd \<Longrightarrow>
   migrate_minor_2 im h e opts =
     (Inr (opts(OPT_FUEL_CONSUMPTION_UNIT im \<mapsto> OPT_UNIT_LITER_PER_100KM im)),
      remove_old_entities im h (coordinator rd))"
  by (simp add: migrate_minor_2_def)

lemma migrate_minor_2_skips:
  "\<not> minor_version e < 2 \<Longrightarrow> migrate_minor_2 im h e opts = (Inr opts, h)"
  by (simp add: migrate_minor_2_def)

lemma migrate_minor_3_moves:
  "minor_version e < 3 \<Longrightarrow> d CONF_ACCESS_TOKEN = Some a \<Longrightarrow> d ''refresh_token'' = Some r \<Longrightarrow>
   unique_id e = Some uid \<Longrightarrow> async_update env = None \<Longrightarrow>
   migrate_minor_3 env h e d =
     (Inr (d(CONF_ACCESS_TOKEN := None, ''refresh_token'' := None, CONF_PASSWORD := None)),
      record_call (StoreAsyncUpdate (VolvoCarsStoreManager uid) a r) h)"
  by (auto simp: migrate_minor_3_def await_def CONF_ACCESS_TOKEN_def CONF_PASSWORD_def)

lemma migrate_minor_3_store_raises:
  "minor_version e < 3 \<Longrightarrow> d CONF_ACCESS_TOKEN = Some a \<Longrightarrow> d ''refresh_token'' = Some r \<Longrightarrow>
   unique_id e = Some uid \<Longrightarrow> async_update env = Some err \<Longrightarrow>
   migrate_minor_3 env h e d =
     (Inl err, record_call (StoreAsyncUpdate (VolvoCarsStoreManager uid) a r) h)"
  by (simp add: migrate_minor_3_def await_def)

lemma migrate_minor_3_skips:
  "\<not> minor_version e < 3 \<Longrightarrow> migrate_minor_3 env h e d = (Inr d, h)"
  by (simp add: migrate_minor_3_def)

lemma migrate_minor_3_data:
  "migrate_minor_3 env h e d = (Inr d', h') \<Longrightarrow> minor_version e < 3 \<Longrightarrow>
   d' CONF_PASSWORD = None"
  by (auto simp: migrate_minor_3_def await_def CONF_ACCESS_TOKEN_def CONF_PASSWORD_def
      split: if_splits option.splits)

lemma migrate_minor_3_returns:
  "d CONF_ACCESS_TOKEN \<noteq> None \<and> d ''refresh_token'' \<noteq> None
     \<longrightarrow> unique_id e \<noteq> None \<and> async_update env = None \<Longrightarrow>
   \<exists>d' h'. migrate_minor_3 env h e d = (Inr d', h')"
  by (auto simp: migrate_minor_3_def await_def split: option.splits)

lemma migrate_minor_2_options:
  "migrate_minor_2 im h e opts = (Inr opts', h') \<Longrightarrow> minor_version e < 2 \<Longrightarrow>
   opts' = opts(OPT_FUEL_CONSUMPTION_UNIT im \<mapsto> OPT_UNIT_LITER_PER_100KM im)"
  by (auto simp: migrate_minor_2_def split: option.splits)

lemma migrate_minor_2_returns:
  "minor_version e < 2 \<longrightarrow> runtime_data e \<noteq> None \<Longrightarrow>
   \<exists>opts' h'. migrate_minor_2 im h e opts = (Inr opts', h')"
  by (auto simp: migrate_minor_2_def)

lemma migrate_version_1_returned:
  assumes "version e = 1" and "1 \<le> VERSION im"
    and "outcome (async_migrate_entry im env h e) = Inr b"
  shows "\<exists>opts' h1 d' h2.
           migrate_minor_2 im h e (options e) = (Inr opts', h1)
         \<and> migrate_minor_3 env h1 e (data e) = (Inr d', h2)
         \<and> async_migrate_entry im env h e
             = returns True h2 (async_update_entry e d' opts' (VERSION im) (MINOR_VERSION im))"
  using assms
  by (auto simp: async_migrate_entry_def raises_def returns_def split: prod.splits sum.splits)

lemma migrate_version_1_completes:
  assumes "version e = 1" and "1 \<le> VERSION im"
    and "minor_version e < 2 \<longrightarrow> runtime_data e \<noteq> None"
    and "data e CONF_ACCESS_TOKEN \<noteq> None \<and> data e ''refresh_token'' \<noteq> None
         \<longrightarrow> unique_id e \<noteq> None \<and> async_update env = None"
  shows "outcome (async_migrate_entry im env h e) = Inr True"
proof -
  from assms(3) obtain opts' h1 where m2: "migrate_minor_2 im h e (options e) = (Inr opts', h1)"
    using migrate_minor_2_returns by blast
  from assms(4) obtain d' h2 where m3: "migrate_minor_3 env h1 e (data e) = (Inr d', h2)"
    using migrate_minor_3_returns by blast
  show ?thesis
    using assms(1,2) by (simp add: async_migrate_entry_def m2 m3 returns_def)
qed

text \<open>
  An entry that is at the flow handler's version and minor version, with no step of
  version 1 left to run, is returned as it is, with True; nothing is called.
\<close>

lemma migrate_at_current_version:
  assumes "version e = VERSION im" and "minor_version e = MINOR_VERSION im"
    and "VERSION im = 1 \<longrightarrow> 3 \<le> MINOR_VERSION im"
  shows "async_migrate_entry im env h e = returns True h e"
proof (cases "VERSION im = 1")
  case True
  with assms have "\<not> minor_version e < 2" and "\<not> minor_version e < 3" and "version e = 1"
    by simp_all
  moreover have "async_update_entry e (data e) (options e) (VERSION im) (MINOR_VERSION im) = e"
    unfolding async_update_entry_def assms(1) [symmetric] assms(2) [symmetric] by simp
  ultimately show ?thesis
    using True
    by (simp add: async_migrate_entry_def migrate_minor_2_skips migrate_minor_3_skips)
next
  case False
  with assms(1) show ?thesis
    by (simp add: async_migrate_entry_def)
qed

text \<open>
  C1, as the code has it. An entry at version 1 with a minor version below 3 whose data
  holds both the access token and the refresh token is migrated so: the two values are
  passed to \<^verbatim>\<open>store.async_update\<close> of a store manager for the entry's unique id;
  when that call returns, both keys (and the password) leave the entry's data and True
  is returned; when it raises, its exception leaves the migration and the entry is as it
  was. This needs a unique id that is not None, since line 104 asserts it, and the
  runtime data when the minor version is below 2, since line 100 reads it; and version 1
  must not be newer than the flow handler's.
\<close>

theorem migrate_moves_tokens_into_store:
  assumes v: "version e = 1" and mv: "minor_version e < 3" and ok: "1 \<le> VERSION im"
    and a: "data e CONF_ACCESS_TOKEN = Some a" and r: "data e ''refresh_token'' = Some r"
    and uid: "unique_id e = Some uid"
    and rd: "minor_version e < 2 \<longrightarrow> runtime_data e \<noteq> None"
  shows "calls (hass_after (async_migrate_entry im env h e))
           = calls h @ [StoreAsyncUpdate (VolvoCarsStoreManager uid) a r]
     \<and> (async_update env = None \<longrightarrow>
          outcome (async_migrate_entry im env h e) = Inr True
          \<and> data (entry_after (async_migrate_entry im env h e))
              = (data e)(CONF_ACCESS_TOKEN := None, ''refresh_token'' := None,
                         CONF_PASSWORD := None))
     \<and> (\<forall>err. async_update env = Some err \<longrightarrow>
          outcome (async_migrate_entry im env h e) = Inl err
          \<and> entry_after (async_migrate_entry im env h e) = e)"
proof -
  obtain h1 opts' where m2: "migrate_minor_2 im h e (options e) = (Inr opts', h1)"
    and h1: "calls h1 = calls h"
  proof (cases "minor_version e < 2")
    case True
    with rd obtain x where x: "runtime_data e = Some x" by auto
    show ?thesis
      using that migrate_minor_2_runs [OF True x, of im h "options e"]
      by (simp add: calls_remove_old_entities)
  next
    case False
    show ?thesis
      using that migrate_minor_2_skips [OF False, of im h "options e"] by simp
  qed
  show ?thesis
  proof (cases "async_update env")
    case None
    show ?thesis
      using v ok h1 None
      by (simp add: async_migrate_entry_def m2 migrate_minor_3_moves [OF mv a r uid None]
          returns_def async_update_entry_def record_call_def)
  next
    case (Some err)
    show ?thesis
      using v ok h1 Some
      by (simp add: async_migrate_entry_def m2 migrate_minor_3_store_raises [OF mv a r uid Some]
          raises_def record_call_def)
  qed
qed

theorem migrate_moves_tokens_into_store_witness:
  "version example_entry = 1 \<and> minor_version example_entry < 3
   \<and> 1 \<le> VERSION example_integration
   \<and> data example_entry CONF_ACCESS_TOKEN = Some (PStr ''at'')
   \<and> data example_entry ''refresh_token'' = Some (PStr ''rt'')
   \<and> unique_id example_entry = Some ''YV1''
   \<and> async_update example_environment = None
   \<and> outcome (async_migrate_entry example_integration example_environment example_hass
        example_entry) = Inr True
   \<and> calls (hass_after (async_migrate_entry example_integration example_environment
        example_hass example_entry))
       = [StoreAsyncUpdate (VolvoCarsStoreManager ''YV1'') (PStr ''at'') (PStr ''rt'')]
   \<and> data (entry_after (async_migrate_entry example_integration example_environment
        example_hass example_entry)) CONF_ACCESS_TOKEN = None
   \<and> data (entry_after (async_migrate_entry example_integration example_environment
        example_hass example_entry)) ''refresh_token'' = None
   \<and> outcome (async_migrate_entry example_integration
        (example_environment\<lparr>async_update := Some (HostException HomeAssistantError)\<rparr>)
        example_hass example_entry) = Inl (HostException HomeAssistantError)
   \<and> data (entry_after (async_migrate_entry example_integration
        (example_environment\<lparr>async_update := Some (HostException HomeAssistantError)\<rparr>)
        example_hass example_entry)) CONF_ACCESS_TOKEN = Some (PStr ''at'')"
  using migrate_moves_tokens_into_store [of example_entry example_integration "PStr ''at''"
      "PStr ''rt''" "''YV1''" example_environment example_hass]
    migrate_moves_tokens_into_store [of example_entry example_integration "PStr ''at''"
      "PStr ''rt''" "''YV1''"
      "example_environment\<lparr>async_update := Some (HostException HomeAssistantError)\<rparr>"
      example_hass]
  by (simp add: example_entry_def example_integration_def example_hass_def
      example_environment_def CONF_ACCESS_TOKEN_def)

text \<open>
  C1 as stated, for every such entry, fails on an entry without unique id: the assertion
  of line 104 raises, no call reaches the store and the tokens stay in the data.
\<close>

theorem migrate_tokens_without_unique_id_counterexample:
  "version (example_entry\<lparr>unique_id := None\<rparr>) = 1
   \<and> minor_version (example_entry\<lparr>unique_id := None\<rparr>) < 3
   \<and> data (example_entry\<lparr>unique_id := None\<rparr>) CONF_ACCESS_TOKEN = Some (PStr ''at'')
   \<and> data (example_entry\<lparr>unique_id := None\<rparr>) ''refresh_token'' = Some (PStr ''rt'')
   \<and> outcome (async_migrate_entry example_integration example_environment example_hass
        (example_entry\<lparr>unique_id := None\<rparr>)) = Inl AssertionError
   \<and> calls (hass_after (async_migrate_entry example_integration example_environment
        example_hass (example_entry\<lparr>unique_id := None\<rparr>))) = []
   \<and> data (entry_after (async_migrate_entry example_integration example_environment
        example_hass (example_entry\<lparr>unique_id := None\<rparr>))) CONF_ACCESS_TOKEN
       = Some (PStr ''at'')"
  by (simp add: async_migrate_entry_def migrate_minor_2_def migrate_minor_3_def raises_def
      example_entry_def example_integration_def example_hass_def CONF_ACCESS_TOKEN_def)

text \<open>
  C2. The migration is idempotent: after a run that returned True, the entry is at the
  flow handler's version, and running the migration again on it, in any state of the
  world, returns True and leaves the entry (its data, options, version and minor
  version) and the world as they are. The flow handler is taken not to be at a version
  1.x below 1.3, the last version that the migration has a step for.
\<close>

theorem migrate_again_unchanged:
  assumes cur: "VERSION im = 1 \<longrightarrow> 3 \<le> MINOR_VERSION im"
    and out: "outcome (async_migrate_entry im env h e) = Inr True"
  shows "async_migrate_entry im env2 h2 (entry_after (async_migrate_entry im env h e))
           = returns True h2 (entry_after (async_migrate_entry im env h e))
       \<and> (version e = 1 \<longrightarrow>
            version (entry_after (async_migrate_entry im env h e)) = VERSION im
            \<and> minor_version (entry_after (async_migrate_entry im env h e)) = MINOR_VERSION im)"
proof (cases "version e = 1")
  case True
  from out have ok: "1 \<le> VERSION im"
    using True by (simp add: async_migrate_entry_def returns_def split: if_splits)
  from migrate_version_1_returned [OF True ok out]
  obtain opts' d' g where
    res: "async_migrate_entry im env h e
          = returns True g (async_update_entry e d' opts' (VERSION im) (MINOR_VERSION im))"
    by blast
  let ?e = "async_update_entry e d' opts' (VERSION im) (MINOR_VERSION im)"
  have ver: "version ?e = VERSION im" "minor_version ?e = MINOR_VERSION im"
    by (simp_all add: async_update_entry_def)
  from migrate_at_current_version [OF ver cur, of env2 h2] ver show ?thesis
    by (simp add: res returns_def)
next
  case False
  with out have "\<not> VERSION im < version e"
    by (auto simp: async_migrate_entry_def returns_def split: if_splits)
  with False have "\<And>env' h'. async_migrate_entry im env' h' e = returns True h' e"
    by (simp add: async_migrate_entry_def)
  with False show ?thesis by (simp add: returns_def)
qed

theorem migrate_again_unchanged_witness:
  "outcome (async_migrate_entry example_integration example_environment example_hass
      example_entry) = Inr True
   \<and> version (entry_after (async_migrate_entry example_integration example_environment
        example_hass example_entry)) = VERSION example_integration
   \<and> async_migrate_entry example_integration example_environment
        (hass_after (async_migrate_entry example_integration example_environment example_hass
           example_entry))
        (entry_after (async_migrate_entry example_integration example_environment example_hass
           example_entry))
       = returns True
           (hass_after (async_migrate_entry example_integration example_environment
              example_hass example_entry))
           (entry_after (async_migrate_entry example_integration example_environment
              example_hass example_entry))"
proof -
  have cur: "VERSION example_integration = 1 \<longrightarrow> 3 \<le> MINOR_VERSION example_integration"
    by (simp add: example_integration_def)
  have out: "outcome (async_migrate_entry example_integration example_environment example_hass
      example_entry) = Inr True"
    by (simp add: async_migrate_entry_def migrate_minor_2_def migrate_minor_3_def await_def
        returns_def example_entry_def example_integration_def example_environment_def
        CONF_ACCESS_TOKEN_def CONF_PASSWORD_def)
  have v: "version example_entry = 1"
    by (simp add: example_entry_def)
  from migrate_again_unchanged [OF cur out, of example_environment
      "hass_after (async_migrate_entry example_integration example_environment example_hass
         example_entry)"] out v
  show ?thesis by simp
qed

text \<open>
  C3. The migration never lowers the version of an entry, whatever it returns or raises;
  and an entry whose version is above the flow handler's is refused: False is returned,
  and neither the entry nor anything else has changed.
\<close>

theorem migrate_never_decreases_version:
  "version e \<le> version (entry_after (async_migrate_entry im env h e))
   \<and> (VERSION im < version e \<longrightarrow> async_migrate_entry im env h e = returns False h e)"
  by (auto simp: async_migrate_entry_def async_update_entry_def returns_def raises_def Let_def
      split: prod.splits sum.splits)

theorem migrate_never_decreases_version_witness:
  "VERSION example_integration < version (example_entry\<lparr>version := 2\<rparr>)
   \<and> async_migrate_entry example_integration example_environment example_hass
        (example_entry\<lparr>version := 2\<rparr>)
       = returns False example_hass (example_entry\<lparr>version := 2\<rparr>)
   \<and> version (example_entry\<lparr>version := 2\<rparr>)
       \<le> version (entry_after (async_migrate_entry example_integration example_environment
            example_hass (example_entry\<lparr>version := 2\<rparr>)))"
  using migrate_never_decreases_version [of "example_entry\<lparr>version := 2\<rparr>"
      example_integration example_environment example_hass]
  by (simp add: example_entry_def example_integration_def returns_def)

text \<open>
  C5. For an entry at version 1 with a minor version below 3 whose data holds the
  password: whenever the migration returns, it returns True and the password key is
  absent from the entry's data. It does return whenever the runtime data is attached
  (needed below minor version 2) and, when both tokens are in the data, the entry has a
  unique id and \<^verbatim>\<open>store.async_update\<close> returns. Version 1 is taken not to be newer
  than the flow handler's.
\<close>

theorem migrate_drops_password:
  assumes v: "version e = 1" and mv: "minor_version e < 3" and ok: "1 \<le> VERSION im"
    and pw: "data e CONF_PASSWORD = Some p"
  shows "(\<forall>b. outcome (async_migrate_entry im env h e) = Inr b
            \<longrightarrow> b \<and> data (entry_after (async_migrate_entry im env h e)) CONF_PASSWORD = None)
       \<and> ((minor_version e < 2 \<longrightarrow> runtime_data e \<noteq> None)
          \<and> (data e CONF_ACCESS_TOKEN \<noteq> None \<and> data e ''refresh_token'' \<noteq> None
               \<longrightarrow> unique_id e \<noteq> None \<and> async_update env = None)
          \<longrightarrow> outcome (async_migrate_entry im env h e) = Inr True)"
proof (intro conjI allI impI)
  fix b
  assume "outcome (async_migrate_entry im env h e) = Inr b"
  from migrate_version_1_returned [OF v ok this]
  obtain opts' h1 d' h2 where
    m3: "migrate_minor_3 env h1 e (data e) = (Inr d', h2)" and
    res: "async_migrate_entry im env h e
          = returns True h2 (async_update_entry e d' opts' (VERSION im) (MINOR_VERSION im))"
    by blast
  from \<open>outcome (async_migrate_entry im env h e) = Inr b\<close> res show b
    by (simp add: returns_def)
  from migrate_minor_3_data [OF m3 mv] res
  show "data (entry_after (async_migrate_entry im env h e)) CONF_PASSWORD = None"
    by (simp add: returns_def async_update_entry_def)
next
  assume "(minor_version e < 2 \<longrightarrow> runtime_data e \<noteq> None)
          \<and> (data e CONF_ACCESS_TOKEN \<noteq> None \<and> data e ''refresh_token'' \<noteq> None
               \<longrightarrow> unique_id e \<noteq> None \<and> async_update env = None)"
  then show "outcome (async_migrate_entry im env h e) = Inr True"
    using migrate_version_1_completes [OF v ok] by blast
qed

theorem migrate_drops_password_witness:
  "version example_entry = 1 \<and> minor_version example_entry < 3
   \<and> 1 \<le> VERSION example_integration
   \<and> data example_entry CONF_PASSWORD = Some (PStr ''secret'')
   \<and> async_update example_environment = None
   \<and> outcome (async_migrate_entry example_integration example_environment example_hass
        example_entry) = Inr True
   \<and> data (entry_after (async_migrate_entry example_integration example_environment
        example_hass example_entry)) CONF_PASSWORD = None"
  using migrate_drops_password [of example_entry example_integration "PStr ''secret''"
      example_environment example_hass]
  by (simp add: example_entry_def example_integration_def example_environment_def
      CONF_PASSWORD_def CONF_ACCESS_TOKEN_def)

text \<open>
  C6. For an entry at version 1 with a minor version below 2: whenever the migration
  returns, it returns True and the entry's options map the fuel-consumption-unit option
  to litres per 100 km. It does return whenever the runtime data is attached and, when
  both tokens are in the data, the entry has a unique id and
  \<^verbatim>\<open>store.async_update\<close> returns. Version 1 is taken not to be newer than the flow
  handler's.
\<close>

theorem migrate_sets_default_unit:
  assumes v: "version e = 1" and mv: "minor_version e < 2" and ok: "1 \<le> VERSION im"
  shows "(\<forall>b. outcome (async_migrate_entry im env h e) = Inr b
            \<longrightarrow> b \<and> options (entry_after (async_migrate_entry im env h e))
                       (OPT_FUEL_CONSUMPTION_UNIT im) = Some (OPT_UNIT_LITER_PER_100KM im))
       \<and> (runtime_data e \<noteq> None
          \<and> (data e CONF_ACCESS_TOKEN \<noteq> None \<and> data e ''refresh_token'' \<noteq> None
               \<longrightarrow> unique_id e \<noteq> None \<and> async_update env = None)
          \<longrightarrow> outcome (async_migrate_entry im env h e) = Inr True)"
proof (intro conjI allI impI)
  fix b
  assume "outcome (async_migrate_entry im env h e) = Inr b"
  from migrate_version_1_returned [OF v ok this]
  obtain opts' h1 d' h2 where
    m2: "migrate_minor_2 im h e (options e) = (Inr opts', h1)" and
    res: "async_migrate_entry im env h e
          = returns True h2 (async_update_entry e d' opts' (VERSION im) (MINOR_VERSION im))"
    by blast
  from \<open>outcome (async_migrate_entry im env h e) = Inr b\<close> res show b
    by (simp add: returns_def)
  from migrate_minor_2_options [OF m2 mv] res
  show "options (entry_after (async_migrate_entry im env h e)) (OPT_FUEL_CONSUMPTION_UNIT im)
        = Some (OPT_UNIT_LITER_PER_100KM im)"
    by (simp add: returns_def async_update_entry_def)
next
  assume "runtime_data e \<noteq> None
          \<and> (data e CONF_ACCESS_TOKEN \<noteq> None \<and> data e ''refresh_token'' \<noteq> None
               \<longrightarrow> unique_id e \<noteq> None \<and> async_update env = None)"
  then show "outcome (async_migrate_entry im env h e) = Inr True"
    using migrate_version_1_completes [OF v ok] by blast
qed

theorem migrate_sets_default_unit_witness:
  "version (example_entry\<lparr>minor_version := 1, runtime_data := Some example_runtime_data\<rparr>) = 1
   \<and> minor_version (example_entry\<lparr>minor_version := 1,
        runtime_data := Some example_runtime_data\<rparr>) < 2
   \<and> 1 \<le> VERSION example_integration
   \<and> async_update example_environment = None
   \<and> outcome (async_migrate_entry example_integration example_environment example_hass
        (example_entry\<lparr>minor_version := 1, runtime_data := Some example_runtime_data\<rparr>))
       = Inr True
   \<and> options (entry_after (async_migrate_entry example_integration example_environment
        example_hass
        (example_entry\<lparr>minor_version := 1, runtime_data := Some example_runtime_data\<rparr>)))
        ''fuel_consumption_unit'' = Some (PStr ''l_100km'')"
  using migrate_sets_default_unit [of
      "example_entry\<lparr>minor_version := 1, runtime_data := Some example_runtime_data\<rparr>"
      example_integration example_environment example_hass]
  by (simp add: example_entry_def example_integration_def example_environment_def
      CONF_ACCESS_TOKEN_def)

section \<open>Properties of removal\<close>

lemma store_removals_record_call:
  "store_removals (record_call c h) = store_removals h @ (if is_store_removal c then [c] else [])"
  by (simp add: store_removals_def record_call_def)

lemma store_removals_remove_old_entities:
  "store_removals (remove_old_entities im h c) = store_removals h"
  by (simp add: store_removals_def remove_old_entities_def)

lemma store_removals_await:
  "\<not> is_store_removal c \<Longrightarrow> store_removals (snd (await c a h)) = store_removals h"
  by (simp add: await_def store_removals_record_call split: option.splits)

lemma store_removals_reset:
  "store_removals (snd (async_reset_request_count_if_missed env h t c)) = store_removals h"
  by (auto simp: async_reset_request_count_if_missed_def store_removals_await
      split: sum.splits bool.splits pyval.splits)

lemma store_removals_migrate_minor_2:
  "store_removals (snd (migrate_minor_2 im h e opts)) = store_removals h"
  by (simp add: migrate_minor_2_def store_removals_remove_old_entities split: option.splits)

lemma store_removals_migrate_minor_3:
  "store_removals (snd (migrate_minor_3 env h e d)) = store_removals h"
  by (simp add: migrate_minor_3_def await_def store_removals_record_call split: option.splits)

lemma store_removals_migrate:
  "store_removals (hass_after (async_migrate_entry im env h e)) = store_removals h"
proof -
  obtain r1 h1 where m2: "migrate_minor_2 im h e (options e) = (r1, h1)"
    by (cases "migrate_minor_2 im h e (options e)")
  obtain r2 h2 where m3: "migrate_minor_3 env h1 e (data e) = (r2, h2)"
    by (cases "migrate_minor_3 env h1 e (data e)")
  have h1: "store_removals h1 = store_removals h"
    using store_removals_migrate_minor_2 [of im h e "options e"] m2 by simp
  have h2: "store_removals h2 = store_removals h1"
    using store_removals_migrate_minor_3 [of env h1 e "data e"] m3 by simp
  show ?thesis
    by (simp add: async_migrate_entry_def m2 m3 h1 h2 returns_def raises_def
        split: sum.splits)
qed

lemma store_removals_unload:
  "store_removals (hass_after (async_unload_entry im env h e)) = store_removals h"
  by (simp add: async_unload_entry_def Let_def store_removals_record_call returns_def raises_def
      split: option.splits sum.splits)

lemma store_removals_awaited:
  "await c a g = (r, g') \<Longrightarrow> \<not> is_store_removal c \<Longrightarrow> store_removals g' = store_removals g"
  using store_removals_await [of c a g] by simp

lemma store_removals_reset_result:
  "async_reset_request_count_if_missed env g t c = (r, g') \<Longrightarrow>
   store_removals g' = store_removals g"
  using store_removals_reset [of env g t c] by simp

lemma store_removals_setup:
  "store_removals (hass_after (async_setup_entry im env h e)) = store_removals h"
proof -
  have a1: "\<And>s a g r g'. await (StoreAsyncLoad s) a g = (r, g')
      \<Longrightarrow> store_removals g' = store_removals g"
    by (erule store_removals_awaited) simp
  have a2: "\<And>t b a g r g'. await (AsyncScheduleRefresh t b) a g = (r, g')
      \<Longrightarrow> store_removals g' = store_removals g"
    by (erule store_removals_awaited) simp
  have a3: "\<And>c a g r g'. await (AsyncConfigEntryFirstRefresh c) a g = (r, g')
      \<Longrightarrow> store_removals g' = store_removals g"
    by (erule store_removals_awaited) simp
  have a4: "\<And>i p a g r g'. await (AsyncForwardEntrySetups i p) a g = (r, g')
      \<Longrightarrow> store_removals g' = store_removals g"
    by (erule store_removals_awaited) simp
  show ?thesis
    by (auto simp: async_setup_entry_def Let_def returns_def raises_def
        store_removals_record_call
        split: sum.splits prod.splits option.splits
        dest!: a1 a2 a3 a4 store_removals_reset_result)
qed

text \<open>
  C7. For an entry whose unique id is neither None nor empty, \<^verbatim>\<open>async_remove_entry\<close>
  calls \<^verbatim>\<open>async_remove\<close> on a store manager keyed by that unique id and does nothing
  else: the entry is as it was, and the callback returns when that call returns and
  raises what that call raises. The store is removed exactly then: this one removal is
  added to the removals made so far, and setup, migration and unload of the entry add
  none.
\<close>

theorem remove_entry_removes_store:
  assumes "unique_id e = Some uid" and "uid \<noteq> []"
  shows "hass_after (async_remove_entry env h e)
           = record_call (StoreAsyncRemove (VolvoCarsStoreManager uid)) h
       \<and> entry_after (async_remove_entry env h e) = e
       \<and> outcome (async_remove_entry env h e)
           = (case async_remove env of None \<Rightarrow> Inr () | Some err \<Rightarrow> Inl err)
       \<and> store_removals (hass_after (async_remove_entry env h e))
           = store_removals h @ [StoreAsyncRemove (VolvoCarsStoreManager uid)]
       \<and> store_removals (hass_after (async_setup_entry im env2 h e)) = store_removals h
       \<and> store_removals (hass_after (async_migrate_entry im env2 h e)) = store_removals h
       \<and> store_removals (hass_after (async_unload_entry im env2 h e)) = store_removals h"
  using assms
  by (simp add: async_remove_entry_def await_def returns_def raises_def
      store_removals_record_call store_removals_setup store_removals_migrate
      store_removals_unload split: option.splits)

theorem remove_entry_removes_store_witness:
  "unique_id example_entry = Some ''YV1'' \<and> ''YV1'' \<noteq> []
   \<and> calls (hass_after (async_remove_entry example_environment example_hass example_entry))
       = [StoreAsyncRemove (VolvoCarsStoreManager ''YV1'')]
   \<and> outcome (async_remove_entry example_environment example_hass example_entry) = Inr ()
   \<and> outcome (async_remove_entry
        (example_environment\<lparr>async_remove := Some (HostException HomeAssistantError)\<rparr>)
        example_hass example_entry) = Inl (HostException HomeAssistantError)
   \<and> calls (hass_after (async_remove_entry
        (example_environment\<lparr>async_remove := Some (HostException HomeAssistantError)\<rparr>)
        example_hass example_entry))
       = [StoreAsyncRemove (VolvoCarsStoreManager ''YV1'')]"
  using remove_entry_removes_store [of example_entry "''YV1''" example_environment example_hass]
    remove_entry_removes_store [of example_entry "''YV1''"
      "example_environment\<lparr>async_remove := Some (HostException HomeAssistantError)\<rparr>"
      example_hass]
  by (simp add: example_entry_def example_hass_def example_environment_def record_call_def)

text \<open>
  C9. For an entry whose unique id is None or the empty string,
  \<^verbatim>\<open>async_remove_entry\<close> returns without raising and changes nothing: no store
  manager is made and no call is recorded, whatever the store would answer.
\<close>

theorem remove_entry_without_unique_id:
  assumes "unique_id e = None \<or> unique_id e = Some []"
  shows "async_remove_entry env h e = returns () h e"
  using assms by (auto simp: async_remove_entry_def)

theorem remove_entry_without_unique_id_witness:
  "unique_id (example_entry\<lparr>unique_id := Some []\<rparr>) = Some []
   \<and> outcome (async_remove_entry example_environment example_hass
        (example_entry\<lparr>unique_id := Some []\<rparr>)) = Inr ()
   \<and> hass_after (async_remove_entry example_environment example_hass
        (example_entry\<lparr>unique_id := Some []\<rparr>)) = example_hass
   \<and> entry_after (async_remove_entry example_environment example_hass
        (example_entry\<lparr>unique_id := Some []\<rparr>)) = example_entry\<lparr>unique_id := Some []\<rparr>"
  using remove_entry_without_unique_id [of "example_entry\<lparr>unique_id := Some []\<rparr>"
      example_environment example_hass]
  by (simp add: returns_def)

section \<open>Properties of setup and of the missed reset\<close>




lemma reset_raises_framework_defined:
  assumes "\<not> truthy t \<or>
           (case t of
              PStr s \<Rightarrow> (case fromisoformat env s of Inl err \<Rightarrow> False | Inr dt \<Rightarrow> tzinfo dt \<noteq> None)
            | _ \<Rightarrow> False)"
    and "answer_framework_defined (async_reset_request_count env)"
    and "async_reset_request_count_if_missed env h t c = (Inl err, h')"
  shows "framework_defined err"
  using assms
  by (auto simp: async_reset_request_count_if_missed_def datetime_lt_def most_recent_midnight_def
      await_def answer_framework_defined_def
      split: pyval.splits sum.splits option.splits if_splits bool.splits)

lemma await_raises:
  "await c a g = (Inl err, g') \<Longrightarrow> a = Some err"
  by (auto simp: await_def split: option.splits)

lemma setup_raises_at_reset_check:
  assumes reach: "setup_reaches_reset_check im env e"
    and t: "store_data env ''api_requests_reset_time'' = Some t"
    and r: "\<And>g c. fst (async_reset_request_count_if_missed env g t c) = Inl err"
  shows "outcome (async_setup_entry im env h e) = Inl err"
proof -
  from reach obtain uid vin api_key where
    "unique_id e = Some uid" "async_load env = None"
    "get_setting im e (CONF_VIN im) = Inr vin"
    "get_setting im e (CONF_VCC_API_KEY im) = Inr api_key"
    "async_schedule_refresh env = None"
    unfolding setup_reaches_reset_check_def
    by (cases "get_setting im e (CONF_VIN im)"; cases "get_setting im e (CONF_VCC_API_KEY im)")
      auto
  then show ?thesis
    using t r
    by (auto simp: async_setup_entry_def await_def raises_def Let_def
        split: prod.splits sum.splits) (metis fst_conv sum.inject(1) Inl_Inr_False)+
qed



lemma setup_without_unique_id_raises:
  "unique_id e = None \<Longrightarrow> async_setup_entry im env h e = raises AssertionError h e"
  by (simp add: async_setup_entry_def)

text \<open>
  C8, as the code has it. This file raises no exception of the host framework itself.
  When the entry has a unique id, the store holds a reset timestamp that is falsy or
  parses to an aware datetime, and every component that setup calls raises only
  exceptions of the host framework, then every exception that
  \<^verbatim>\<open>async_setup_entry\<close> raises is one of the host framework's.
\<close>

theorem setup_failures_framework_defined:
  assumes uid: "unique_id e \<noteq> None"
    and rt: "reset_time_readable env"
    and comp: "components_raise_framework_exceptions im env e"
    and fails: "outcome (async_setup_entry im env h e) = Inl err"
  shows "framework_defined err"
proof -
  from rt obtain t where t: "store_data env ''api_requests_reset_time'' = Some t"
    and wf: "\<not> truthy t \<or>
           (case t of
              PStr s \<Rightarrow> (case fromisoformat env s of Inl err \<Rightarrow> False | Inr dt \<Rightarrow> tzinfo dt \<noteq> None)
            | _ \<Rightarrow> False)"
    by (auto simp: reset_time_readable_def split: option.splits)
  from comp have c: "answer_framework_defined (async_load env)"
    "setting_framework_defined (get_setting im e (CONF_VIN im))"
    "setting_framework_defined (get_setting im e (CONF_VCC_API_KEY im))"
    "answer_framework_defined (async_schedule_refresh env)"
    "answer_framework_defined (async_reset_request_count env)"
    "answer_framework_defined (async_config_entry_first_refresh env)"
    "answer_framework_defined (async_forward_entry_setups env)"
    by (simp_all add: components_raise_framework_exceptions_def)
  note rs = reset_raises_framework_defined [OF wf c(5)]
  show ?thesis
    using uid t c fails
    by (auto simp: async_setup_entry_def Let_def returns_def raises_def
        answer_framework_defined_def setting_framework_defined_def
        split: sum.splits prod.splits option.splits
        dest!: await_raises dest: rs)
qed


theorem setup_failures_framework_defined_witness:
  "unique_id example_entry \<noteq> None
   \<and> reset_time_readable
        (example_environment\<lparr>async_config_entry_first_refresh :=
           Some (HostException ConfigEntryNotReady)\<rparr>)
   \<and> components_raise_framework_exceptions example_integration
        (example_environment\<lparr>async_config_entry_first_refresh :=
           Some (HostException ConfigEntryNotReady)\<rparr>) example_entry
   \<and> outcome (async_setup_entry example_integration
        (example_environment\<lparr>async_config_entry_first_refresh :=
           Some (HostException ConfigEntryNotReady)\<rparr>) example_hass example_entry)
       = Inl (HostException ConfigEntryNotReady)
   \<and> framework_defined (HostException ConfigEntryNotReady)"
proof -
  let ?env = "example_environment\<lparr>async_config_entry_first_refresh :=
           Some (HostException ConfigEntryNotReady)\<rparr>"
  have uid: "unique_id example_entry \<noteq> None"
    by (simp add: example_entry_def)
  have rt: "reset_time_readable ?env"
    by (simp add: reset_time_readable_def example_environment_def example_fromisoformat_def)
  have comp: "components_raise_framework_exceptions example_integration ?env example_entry"
    by (simp add: components_raise_framework_exceptions_def answer_framework_defined_def
        setting_framework_defined_def example_environment_def example_integration_def
        example_get_setting_def example_entry_def)
  have fails: "outcome (async_setup_entry example_integration ?env example_hass example_entry)
       = Inl (HostException ConfigEntryNotReady)"
    by (simp add: async_setup_entry_def Let_def await_def record_call_def raises_def
        async_reset_request_count_if_missed_def datetime_lt_def most_recent_midnight_def
        example_environment_def example_fromisoformat_def example_integration_def
        example_get_setting_def example_entry_def example_hass_def
        instant_def ymd2ord_def days_before_year_def days_before_month_def
        DAYS_BEFORE_MONTH_def is_leap_def time_of_day_def day_us_def)
  from setup_failures_framework_defined [OF uid rt comp fails] uid rt comp fails
  show ?thesis by simp
qed

text \<open>
  C8 as stated, for every input on which setup fails, is false for an entry without
  unique id: the assertion of line 40 raises a bare AssertionError.
\<close>

theorem setup_without_unique_id_counterexample:
  "outcome (async_setup_entry example_integration example_environment example_hass
      (example_entry\<lparr>unique_id := None\<rparr>)) = Inl AssertionError
   \<and> \<not> framework_defined AssertionError"
  by (simp add: async_setup_entry_def raises_def example_entry_def)

text \<open>
  C10. The parse of the stored reset timestamp is unguarded: for every non-empty string
  that \<^verbatim>\<open>datetime.fromisoformat\<close> rejects,
  \<^verbatim>\<open>_async_reset_request_count_if_missed\<close> raises ValueError without calling the
  coordinator, and a setup that reaches the reset check with that string in the store
  raises ValueError as well. The string ``yesterday'' is such a string.
\<close>

theorem reset_time_parse_unguarded:
  assumes "s \<noteq> []" and "fromisoformat env s = Inl ValueError"
  shows "async_reset_request_count_if_missed env h (PStr s) c = (Inl ValueError, h)
       \<and> (setup_reaches_reset_check im env e
            \<and> store_data env ''api_requests_reset_time'' = Some (PStr s)
          \<longrightarrow> outcome (async_setup_entry im env h e) = Inl ValueError)"
proof -
  have r: "\<And>g c. async_reset_request_count_if_missed env g (PStr s) c = (Inl ValueError, g)"
    using assms by (simp add: async_reset_request_count_if_missed_def)
  then show ?thesis
    using setup_raises_at_reset_check [of im env e "PStr s" ValueError h] by simp
qed

theorem reset_time_parse_unguarded_witness:
  "''yesterday'' \<noteq> []
   \<and> fromisoformat (example_environment\<lparr>store_data :=
        [''api_requests_reset_time'' \<mapsto> PStr ''yesterday'']\<rparr>) ''yesterday'' = Inl ValueError
   \<and> async_reset_request_count_if_missed (example_environment\<lparr>store_data :=
        [''api_requests_reset_time'' \<mapsto> PStr ''yesterday'']\<rparr>) example_hass
        (PStr ''yesterday'') (coordinator example_runtime_data) = (Inl ValueError, example_hass)
   \<and> outcome (async_setup_entry example_integration (example_environment\<lparr>store_data :=
        [''api_requests_reset_time'' \<mapsto> PStr ''yesterday'']\<rparr>) example_hass example_entry)
       = Inl ValueError"
  using reset_time_parse_unguarded [of "''yesterday''"
      "example_environment\<lparr>store_data := [''api_requests_reset_time'' \<mapsto> PStr ''yesterday'']\<rparr>"
      example_hass "coordinator example_runtime_data" example_integration example_entry]
  by (simp add: setup_reaches_reset_check_def example_environment_def example_fromisoformat_def
      example_integration_def example_get_setting_def example_entry_def)

end
